theory Spec2Isabelle
  imports Main "HOL-Library.Word"
begin

section \<open>StaticLang runtime built-ins: \<open>runtime/builtin.c\<close>\<close>

subsection \<open>Machine types\<close>

text \<open>
  The C file is written against \<open>size_t\<close>, \<open>char\<close> and pointers. The model fixes an
  LP64 target: \<open>size_t\<close> and pointers are 64-bit words (arithmetic wraps modulo \<open>2 ^ 64\<close>),
  a \<open>char\<close> is an 8-bit byte, and C's \<open>int\<close> results are read as integers.
  The null pointer is the address 0.
\<close>

type_synonym size_t = "64 word"
type_synonym addr = "64 word"
type_synonym byte = "8 word"

abbreviation NULL :: addr where
  "NULL \<equiv> 0"

subsection \<open>Memory and the host C library\<close>

text \<open>
  Memory is a store of live objects: \<open>blocks h p = Some bs\<close> says that an object whose
  bytes are \<open>bs\<close> starts at address \<open>p\<close>; \<open>allocated h\<close> holds the addresses handed out by
  the host allocator and not yet freed. Pointers are kept at the granularity of objects:
  a pointer is the address at which an object starts. What C leaves undefined (reading a pointer that is
  not a terminated string, writing past a block, freeing a foreign pointer) is a
  \<open>fault\<close> value of the model.
\<close>

datatype fault = InvalidRead | InvalidWrite | BufferOverflow | Overlap | InvalidFree

record heap =
  blocks :: "addr \<rightharpoonup> byte list"
  allocated :: "addr set"

text \<open>
  The host allocator is outside the repository. Its answer to one request is an input of
  the model: the address it returns (\<open>NULL\<close> when it fails) and the indeterminate bytes
  the fresh block holds.
\<close>

type_synonym host = "addr \<times> (nat \<Rightarrow> byte)"

definition host_fresh :: "host \<Rightarrow> heap \<Rightarrow> bool" where
  \<comment> \<open>ISO C: a block returned by the allocator is disjoint from every live object.\<close>
  "host_fresh host h = (fst host = NULL \<or> blocks h (fst host) = None)"

definition malloc :: "host \<Rightarrow> size_t \<Rightarrow> heap \<Rightarrow> addr \<times> heap" where
  "malloc host n h =
     (if fst host = NULL then (NULL, h)
      else (fst host,
            h\<lparr>blocks := (blocks h)(fst host \<mapsto> map (snd host) [0..<unat n]),
              allocated := insert (fst host) (allocated h)\<rparr>))"

definition calloc :: "host \<Rightarrow> size_t \<Rightarrow> size_t \<Rightarrow> heap \<Rightarrow> addr \<times> heap" where
  \<comment> \<open>Modelled from the spec: the host's \<open>calloc\<close> is not part of the repository; the spec
      expects the zero-initializing allocation primitive to detect overflow of the
      multiplication and to return NULL then, as on any other failure.\<close>
  "calloc host nmemb sz h =
     (if 2 ^ 64 \<le> unat nmemb * unat sz \<or> fst host = NULL then (NULL, h)
      else (fst host,
            h\<lparr>blocks := (blocks h)(fst host \<mapsto> replicate (unat nmemb * unat sz) 0),
              allocated := insert (fst host) (allocated h)\<rparr>))"

definition free :: "addr \<Rightarrow> heap \<Rightarrow> fault + heap" where
  "free ptr h =
     (if ptr = NULL then Inr h
      else if ptr \<in> allocated h
        then Inr (h\<lparr>blocks := (blocks h)(ptr := None), allocated := allocated h - {ptr}\<rparr>)
      else Inl InvalidFree)"

text \<open>
  A C string is the bytes of an object up to its first zero byte. A pointer is readable as
  a string when an object starts there, holds a terminator, and has a size that
  \<open>size_t\<close> can express.
\<close>

definition cstr :: "byte list \<Rightarrow> byte list" where
  "cstr bs = takeWhile (\<lambda>c. c \<noteq> 0) bs"

definition read_string :: "heap \<Rightarrow> addr \<Rightarrow> fault + byte list" where
  "read_string h p =
     (case blocks h p of
        None \<Rightarrow> Inl InvalidRead
      | Some bs \<Rightarrow> if 0 \<in> set bs \<and> length bs < 2 ^ 64 then Inr (cstr bs) else Inl InvalidRead)"



definition strlen :: "heap \<Rightarrow> addr \<Rightarrow> fault + size_t" where
  "strlen h s =
     (case read_string h s of Inl e \<Rightarrow> Inl e | Inr cs \<Rightarrow> Inr (of_nat (length cs)))"

definition strcpy :: "addr \<Rightarrow> addr \<Rightarrow> heap \<Rightarrow> fault + heap" where
  "strcpy dst src h =
     (case read_string h src of
        Inl e \<Rightarrow> Inl e
      | Inr cs \<Rightarrow>
          (case blocks h dst of
             None \<Rightarrow> Inl InvalidWrite
           | Some d \<Rightarrow>
               if dst = src then Inl Overlap
               else if length d < length cs + 1 then Inl BufferOverflow
               else Inr (h\<lparr>blocks := (blocks h)(dst \<mapsto> cs @ [0] @ drop (length cs + 1) d)\<rparr>)))"

definition strcat :: "addr \<Rightarrow> addr \<Rightarrow> heap \<Rightarrow> fault + heap" where
  "strcat dst src h =
     (case read_string h src of
        Inl e \<Rightarrow> Inl e
      | Inr cs \<Rightarrow>
          (case read_string h dst of
             Inl e \<Rightarrow> Inl e
           | Inr ds \<Rightarrow>
               (case blocks h dst of
                  None \<Rightarrow> Inl InvalidWrite
                | Some d \<Rightarrow>
                    if dst = src then Inl Overlap
                    else if length d < length ds + length cs + 1 then Inl BufferOverflow
                    else Inr (h\<lparr>blocks := (blocks h)
                           (dst \<mapsto> ds @ cs @ [0] @ drop (length ds + length cs + 1) d)\<rparr>))))"

text \<open>
  \<open>strcmp\<close> compares byte by byte, as unsigned values, up to the first difference; the end
  of a string is its zero terminator. The result is the difference of the two bytes that
  differ, as the usual implementations return it; ISO C fixes only its sign, and only
  the sign is used below.
\<close>

fun strcmp_bytes :: "byte list \<Rightarrow> byte list \<Rightarrow> int" where
  "strcmp_bytes [] [] = 0"
| "strcmp_bytes [] (y # ys) = - uint y"
| "strcmp_bytes (x # xs) [] = uint x"
| "strcmp_bytes (x # xs) (y # ys) = (if x = y then strcmp_bytes xs ys else uint x - uint y)"

definition strcmp :: "heap \<Rightarrow> addr \<Rightarrow> addr \<Rightarrow> fault + int" where
  "strcmp h s1 s2 =
     (case read_string h s1 of
        Inl e \<Rightarrow> Inl e
      | Inr a \<Rightarrow>
          (case read_string h s2 of Inl e \<Rightarrow> Inl e | Inr b \<Rightarrow> Inr (strcmp_bytes a b)))"

subsection \<open>Allocation and release\<close>

definition sl_malloc :: "host \<Rightarrow> size_t \<Rightarrow> heap \<Rightarrow> addr \<times> heap" where
  "sl_malloc host sz h = malloc host sz h"

definition sl_free :: "addr \<Rightarrow> heap \<Rightarrow> fault + heap" where
  "sl_free ptr h = (if ptr \<noteq> NULL then free ptr h else Inr h)"

fun release_times :: "nat \<Rightarrow> addr \<Rightarrow> heap \<Rightarrow> fault + heap" where
  \<comment> \<open>\<open>sl_free(ptr)\<close> called \<open>n\<close> times in a row.\<close>
  "release_times 0 ptr h = Inr h"
| "release_times (Suc n) ptr h =
     (case sl_free ptr h of Inl e \<Rightarrow> Inl e | Inr h' \<Rightarrow> release_times n ptr h')"

definition sl_alloc_array :: "host \<Rightarrow> size_t \<Rightarrow> size_t \<Rightarrow> heap \<Rightarrow> addr \<times> heap" where
  "sl_alloc_array host element_size count h = calloc host count element_size h"

subsection \<open>Strings\<close>

definition sl_alloc_string :: "host \<Rightarrow> addr \<Rightarrow> heap \<Rightarrow> fault + addr \<times> heap" where
  "sl_alloc_string host str h =
     (if str = NULL then Inr (NULL, h)
      else
        (case strlen h str of
           Inl e \<Rightarrow> Inl e
         | Inr len \<Rightarrow>
             (case malloc host (len + 1) h of
                (result, h1) \<Rightarrow>
                  if result \<noteq> NULL
                  then (case strcpy result str h1 of
                          Inl e \<Rightarrow> Inl e
                        | Inr h2 \<Rightarrow> Inr (result, h2))
                  else Inr (result, h1))))"

definition sl_concat_string :: "host \<Rightarrow> addr \<Rightarrow> addr \<Rightarrow> heap \<Rightarrow> fault + addr \<times> heap" where
  "sl_concat_string host str1 str2 h =
     (if str1 = NULL \<and> str2 = NULL then Inr (NULL, h)
      else if str1 = NULL then sl_alloc_string host str2 h
      else if str2 = NULL then sl_alloc_string host str1 h
      else
        (case strlen h str1 of
           Inl e \<Rightarrow> Inl e
         | Inr len1 \<Rightarrow>
             (case strlen h str2 of
                Inl e \<Rightarrow> Inl e
              | Inr len2 \<Rightarrow>
                  (case malloc host (len1 + len2 + 1) h of
                     (result, h1) \<Rightarrow>
                       if result \<noteq> NULL
                       then (case strcpy result str1 h1 of
                               Inl e \<Rightarrow> Inl e
                             | Inr h2 \<Rightarrow>
                                 (case strcat result str2 h2 of
                                    Inl e \<Rightarrow> Inl e
                                  | Inr h3 \<Rightarrow> Inr (result, h3)))
                       else Inr (result, h1)))))"

definition sl_compare_string :: "heap \<Rightarrow> addr \<Rightarrow> addr \<Rightarrow> fault + int" where
  "sl_compare_string h str1 str2 =
     (if str1 = NULL \<and> str2 = NULL then Inr 0
      else if str1 = NULL \<or> str2 = NULL then Inr 1
      else strcmp h str1 str2)"

subsection \<open>Debug build: the allocation ledger\<close>

text \<open>
  Under \<open>DEBUG_MEMORY\<close> the file keeps two static \<open>size_t\<close> counters, both initialised
  to 0, and writes one diagnostic line per tracked call to the error stream. The lines
  are kept as values: what was printed, not how it was formatted.
\<close>

datatype diag =
    ALLOC size_t addr string int
  | FREE addr string int
  | STATS size_t size_t

record runtime =
  mem :: heap
  allocated_bytes :: size_t
  allocation_count :: size_t
  err_stream :: "diag list"

definition process_start :: "heap \<Rightarrow> runtime" where
  "process_start h = \<lparr>mem = h, allocated_bytes = 0, allocation_count = 0, err_stream = []\<rparr>"

definition ledger :: "runtime \<Rightarrow> size_t \<times> size_t" where
  "ledger s = (allocated_bytes s, allocation_count s)"

definition sl_debug_malloc :: "host \<Rightarrow> size_t \<Rightarrow> string \<Rightarrow> int \<Rightarrow> runtime \<Rightarrow> addr \<times> runtime" where
  "sl_debug_malloc host sz file line s =
     (case malloc host sz (mem s) of
        (ptr, h') \<Rightarrow>
          if ptr \<noteq> NULL
          then (ptr, s\<lparr>mem := h',
                       allocated_bytes := allocated_bytes s + sz,
                       allocation_count := allocation_count s + 1,
                       err_stream := err_stream s @ [ALLOC sz ptr file line]\<rparr>)
          else (ptr, s\<lparr>mem := h'\<rparr>))"

definition sl_debug_free :: "addr \<Rightarrow> string \<Rightarrow> int \<Rightarrow> runtime \<Rightarrow> fault + runtime" where
  "sl_debug_free ptr file line s =
     (if ptr \<noteq> NULL
      then (case free ptr (mem s) of
              Inl e \<Rightarrow> Inl e
            | Inr h' \<Rightarrow>
                Inr (s\<lparr>mem := h',
                       allocation_count := allocation_count s - 1,
                       err_stream := err_stream s @ [FREE ptr file line]\<rparr>))
      else Inr s)"

definition sl_print_memory_stats :: "runtime \<Rightarrow> runtime" where
  "sl_print_memory_stats s =
     s\<lparr>err_stream := err_stream s @ [STATS (allocated_bytes s) (allocation_count s)]\<rparr>"

text \<open>A run of the debug build: the tracked calls the program makes, in order.\<close>

datatype call =
    DebugMalloc host size_t string int
  | DebugFree addr string int
  | PrintStats

fun step :: "call \<Rightarrow> runtime \<Rightarrow> fault + runtime" where
  "step (DebugMalloc host sz file line) s = Inr (snd (sl_debug_malloc host sz file line s))"
| "step (DebugFree ptr file line) s = sl_debug_free ptr file line s"
| "step PrintStats s = Inr (sl_print_memory_stats s)"

fun run :: "call list \<Rightarrow> runtime \<Rightarrow> fault + runtime" where
  "run [] s = Inr s"
| "run (c # cs) s = (case step c s of Inl e \<Rightarrow> Inl e | Inr s' \<Rightarrow> run cs s')"

text \<open>
  Counting over a run: the tracked allocations it makes (\<open>N\<close>), the tracked releases
  (\<open>M\<close>), the sizes it requests, the sizes the host grants, and whether every call does
  something (each allocation succeeds, each release is of a non-NULL block).
\<close>

fun is_malloc :: "call \<Rightarrow> bool" where
  "is_malloc (DebugMalloc host sz file line) = True"
| "is_malloc (DebugFree ptr file line) = False"
| "is_malloc PrintStats = False"

fun is_free :: "call \<Rightarrow> bool" where
  "is_free (DebugMalloc host sz file line) = False"
| "is_free (DebugFree ptr file line) = True"
| "is_free PrintStats = False"

fun requested :: "call \<Rightarrow> nat" where
  "requested (DebugMalloc host sz file line) = unat sz"
| "requested (DebugFree ptr file line) = 0"
| "requested PrintStats = 0"

fun granted :: "call \<Rightarrow> nat" where
  "granted (DebugMalloc host sz file line) = (if fst host \<noteq> NULL then unat sz else 0)"
| "granted (DebugFree ptr file line) = 0"
| "granted PrintStats = 0"

fun succeeds :: "call \<Rightarrow> bool" where
  "succeeds (DebugMalloc host sz file line) = (fst host \<noteq> NULL)"
| "succeeds (DebugFree ptr file line) = (ptr \<noteq> NULL)"
| "succeeds PrintStats = True"

definition allocations :: "call list \<Rightarrow> nat" where
  "allocations cs = length (filter is_malloc cs)"

definition releases :: "call list \<Rightarrow> nat" where
  "releases cs = length (filter is_free cs)"

definition requested_total :: "call list \<Rightarrow> nat" where
  "requested_total cs = sum_list (map requested cs)"

definition granted_total :: "call list \<Rightarrow> nat" where
  "granted_total cs = sum_list (map granted cs)"

subsection \<open>Example memories\<close>

text \<open>
  A concrete memory on which the theorems below are exercised: two string objects,
  \<open>"hi"\<close> at \<open>0x1000\<close> and \<open>"ho"\<close> in a four-byte heap block at \<open>0x2000\<close>.
\<close>

definition demo_heap :: heap where
  "demo_heap =
     \<lparr>blocks = [0x1000 \<mapsto> [0x68, 0x69, 0], 0x2000 \<mapsto> [0x68, 0x6F, 0, 0x21]],
      allocated = {0x2000}\<rparr>"

definition demo_junk :: "nat \<Rightarrow> byte" where
  "demo_junk i = 0xAA"

text \<open>
  Two runs of the debug build: a short one, and \<open>churn n\<close>, which allocates 4 GiB and
  releases it again, \<open>n\<close> times over; \<open>churn_log n\<close> is what that run writes to the error
  stream.
\<close>

definition demo_run :: "call list" where
  "demo_run =
     [DebugMalloc (0x3000, demo_junk) 16 ''main.c'' 3,
      DebugMalloc (0x4000, demo_junk) 8 ''main.c'' 4,
      DebugFree 0x3000 ''main.c'' 9,
      PrintStats]"

definition churn :: "nat \<Rightarrow> call list" where
  \<comment> \<open>\<open>n\<close> rounds of allocating 4 GiB and releasing it again.\<close>
  "churn n =
     concat (replicate n
       [DebugMalloc (0x3000, demo_junk) (2 ^ 32) ''main.c'' 3, DebugFree 0x3000 ''main.c'' 4])"

definition churn_log :: "nat \<Rightarrow> diag list" where
  "churn_log n =
     concat (replicate n [ALLOC (2 ^ 32) 0x3000 ''main.c'' 3, FREE 0x3000 ''main.c'' 4])"

section \<open>Properties\<close>

subsection \<open>Auxiliary facts about the memory model\<close>

lemma cstr_no_zero: "0 \<notin> set (cstr bs)"
  by (auto simp: cstr_def dest: set_takeWhileD)

lemma cstr_terminated: "0 \<notin> set cs \<Longrightarrow> cstr (cs @ 0 # rest) = cs"
  by (induction cs) (simp_all add: cstr_def)

lemma cstr_shorter: "0 \<in> set bs \<Longrightarrow> length (cstr bs) < length bs"
  by (induction bs) (auto simp: cstr_def)

lemma read_string_no_zero: "read_string h p = Inr a \<Longrightarrow> 0 \<notin> set a"
  by (auto simp: read_string_def cstr_no_zero split: option.splits if_splits)

lemma read_string_live: "read_string h p = Inr a \<Longrightarrow> blocks h p \<noteq> None"
  by (auto simp: read_string_def split: option.splits)

lemma read_string_bound: "read_string h p = Inr a \<Longrightarrow> length a + 1 < 2 ^ 64"
  using cstr_shorter
  by (fastforce simp: read_string_def split: option.splits if_splits)

lemma read_string_same_block: "blocks h' p = blocks h p \<Longrightarrow> read_string h' p = read_string h p"
  by (simp add: read_string_def)

lemma read_string_terminated:
  "blocks h p = Some (cs @ 0 # rest) \<Longrightarrow> 0 \<notin> set cs \<Longrightarrow> length cs + length rest + 1 < 2 ^ 64 \<Longrightarrow>
   read_string h p = Inr cs"
  by (simp add: read_string_def cstr_terminated)

lemma strlen_read: "read_string h p = Inr a \<Longrightarrow> strlen h p = Inr (of_nat (length a))"
  by (simp add: strlen_def)

lemma unat_size_t: "n < 2 ^ 64 \<Longrightarrow> unat (of_nat n :: size_t) = n"
  by (simp add: unat_of_nat)

lemma strcpy_into:
  "read_string h src = Inr cs \<Longrightarrow> dst \<noteq> src \<Longrightarrow> blocks h dst = Some d \<Longrightarrow>
   length cs + 1 \<le> length d \<Longrightarrow>
   strcpy dst src h = Inr (h\<lparr>blocks := (blocks h)(dst \<mapsto> cs @ [0] @ drop (length cs + 1) d)\<rparr>)"
  by (simp add: strcpy_def)


lemma sl_alloc_string_copy:
  assumes str: "read_string h str = Inr cs" and nn: "str \<noteq> NULL"
    and r: "r \<noteq> NULL" and fresh: "blocks h r = None"
  shows "sl_alloc_string (r, junk) str h =
           Inr (r, h\<lparr>blocks := (blocks h)(r \<mapsto> cs @ [0]), allocated := insert r (allocated h)\<rparr>)"
proof -
  define J where "J = map junk [0..<length cs + 1]"
  define h1 where "h1 = h\<lparr>blocks := (blocks h)(r \<mapsto> J), allocated := insert r (allocated h)\<rparr>"
  have "of_nat (length cs) + 1 = (of_nat (length cs + 1) :: size_t)"
    by simp
  then have len: "unat (of_nat (length cs) + 1 :: size_t) = length cs + 1"
    using read_string_bound [OF str] unat_size_t [of "length cs + 1"] by metis
  have m: "malloc (r, junk) (of_nat (length cs) + 1) h = (r, h1)"
    using r by (simp add: malloc_def len h1_def J_def)
  have ne: "r \<noteq> str"
    using read_string_live [OF str] fresh by auto
  have "blocks h1 str = blocks h str"
    using ne by (simp add: h1_def)
  then have "read_string h1 str = Inr cs"
    using str read_string_same_block [of h1 str h] by simp
  moreover have "blocks h1 r = Some J" "length cs + 1 \<le> length J"
    by (simp_all add: h1_def J_def)
  ultimately have "strcpy r str h1 =
      Inr (h1\<lparr>blocks := (blocks h1)(r \<mapsto> cs @ [0] @ drop (length cs + 1) J)\<rparr>)"
    using ne by (intro strcpy_into) auto
  then have c: "strcpy r str h1 =
      Inr (h\<lparr>blocks := (blocks h)(r \<mapsto> cs @ [0]), allocated := insert r (allocated h)\<rparr>)"
    by (simp add: h1_def J_def)
  show ?thesis
    using nn r by (simp add: sl_alloc_string_def strlen_read [OF str] m c)
qed

lemma sl_alloc_string_fail:
  "read_string h str = Inr cs \<Longrightarrow> sl_alloc_string (NULL, junk) str h = Inr (NULL, h)"
  by (simp add: sl_alloc_string_def strlen_read malloc_def)





lemma uint_byte_pos: "y \<noteq> 0 \<Longrightarrow> 0 < uint (y :: byte)"
  using uint_0_iff [of y] uint_ge_0 [of y] by linarith

lemma strcmp_bytes_zero_iff:
  "0 \<notin> set a \<Longrightarrow> 0 \<notin> set b \<Longrightarrow> strcmp_bytes a b = 0 \<longleftrightarrow> a = b"
proof (induction a b rule: strcmp_bytes.induct)
  case (4 x xs y ys)
  then show ?case by (auto simp: word_uint_eq_iff)
qed (auto dest: uint_byte_pos)

lemma strcmp_bytes_neg_iff:
  "0 \<notin> set a \<Longrightarrow> 0 \<notin> set b \<Longrightarrow>
   strcmp_bytes a b < 0 \<longleftrightarrow> (a, b) \<in> lexord {(x, y). x < y}"
proof (induction a b rule: strcmp_bytes.induct)
  case (2 y ys)
  then show ?case by (auto dest: uint_byte_pos)
next
  case (4 x xs y ys)
  then show ?case by (auto simp: word_less_def)
qed auto

subsection \<open>Facts about the example memories\<close>

lemma demo_read_hi: "read_string demo_heap 0x1000 = Inr [0x68, 0x69]"
  by (simp add: read_string_def demo_heap_def cstr_def)

lemma demo_read_ho: "read_string demo_heap 0x2000 = Inr [0x68, 0x6F]"
  by (simp add: read_string_def demo_heap_def cstr_def)

lemma demo_fresh: "blocks demo_heap 0x3000 = None"
  by (simp add: demo_heap_def)


subsection \<open>Concatenation\<close>



subsection \<open>String construction\<close>

text \<open>
  C2. \<open>make_string\<close> returns NULL when its argument is NULL. For a non-NULL argument
  that points to a string \<open>cs\<close> it returns NULL, with the memory unchanged, when the
  allocation fails; otherwise it returns the new block, which has exactly
  \<open>length cs + 1\<close> bytes and holds the bytes of \<open>cs\<close> followed by the terminator, while
  every other object is left as it was.
\<close>

theorem sl_alloc_string_spec:
  "sl_alloc_string host NULL h = Inr (NULL, h) \<and>
   (str \<noteq> NULL \<and> read_string h str = Inr cs \<longrightarrow>
      sl_alloc_string (NULL, junk) str h = Inr (NULL, h) \<and>
      (r \<noteq> NULL \<and> blocks h r = None \<longrightarrow>
         sl_alloc_string (r, junk) str h =
           Inr (r, h\<lparr>blocks := (blocks h)(r \<mapsto> cs @ [0]),
                      allocated := insert r (allocated h)\<rparr>) \<and>
         length (cs @ [0]) = length cs + 1))"
  by (simp add: sl_alloc_string_def [of host] sl_alloc_string_copy sl_alloc_string_fail)

theorem sl_alloc_string_spec_witness:
  "sl_alloc_string (0x3000, demo_junk) 0x2000 demo_heap =
     Inr (0x3000, demo_heap\<lparr>blocks := (blocks demo_heap)(0x3000 \<mapsto> [0x68, 0x6F, 0]),
                            allocated := insert 0x3000 (allocated demo_heap)\<rparr>) \<and>
   sl_alloc_string (NULL, demo_junk) 0x2000 demo_heap = Inr (NULL, demo_heap)"
  using sl_alloc_string_spec [of "(0x3000, demo_junk)" demo_heap "0x2000" "[0x68, 0x6F]"
      demo_junk "0x3000"]
    demo_read_ho demo_fresh
  by simp

subsection \<open>Comparison\<close>

text \<open>
  C3. \<open>compare\<close> returns 0 when both arguments are NULL; it returns a nonzero value when
  exactly one is NULL, whichever side it is; and when both are non-NULL and point to
  strings \<open>a\<close> and \<open>b\<close> it returns the result of the byte-wise comparison, which is 0
  exactly when \<open>a = b\<close> and negative exactly when \<open>a\<close> is lexicographically smaller than
  \<open>b\<close> (bytes ordered as unsigned values).
\<close>

theorem sl_compare_string_spec:
  "sl_compare_string h NULL NULL = Inr 0 \<and>
   ((str1 = NULL) \<noteq> (str2 = NULL) \<longrightarrow>
      (\<exists>r. sl_compare_string h str1 str2 = Inr r \<and> r \<noteq> 0)) \<and>
   (str1 \<noteq> NULL \<and> str2 \<noteq> NULL \<and> read_string h str1 = Inr a \<and> read_string h str2 = Inr b \<longrightarrow>
      sl_compare_string h str1 str2 = Inr (strcmp_bytes a b) \<and>
      (strcmp_bytes a b = 0 \<longleftrightarrow> a = b) \<and>
      (strcmp_bytes a b < 0 \<longleftrightarrow> (a, b) \<in> lexord {(x, y). x < y}))"
proof (intro conjI impI)
  show "sl_compare_string h NULL NULL = Inr 0"
    by (simp add: sl_compare_string_def)
next
  assume "(str1 = NULL) \<noteq> (str2 = NULL)"
  then have "sl_compare_string h str1 str2 = Inr 1"
    by (auto simp: sl_compare_string_def)
  then show "\<exists>r. sl_compare_string h str1 str2 = Inr r \<and> r \<noteq> 0"
    by simp
next
  assume both: "str1 \<noteq> NULL \<and> str2 \<noteq> NULL \<and> read_string h str1 = Inr a \<and> read_string h str2 = Inr b"
  then show "sl_compare_string h str1 str2 = Inr (strcmp_bytes a b)"
    by (simp add: sl_compare_string_def strcmp_def)
  from both have nz: "0 \<notin> set a" "0 \<notin> set b"
    by (auto dest: read_string_no_zero)
  from nz show "strcmp_bytes a b = 0 \<longleftrightarrow> a = b"
    by (rule strcmp_bytes_zero_iff)
  from nz show "strcmp_bytes a b < 0 \<longleftrightarrow> (a, b) \<in> lexord {(x, y). x < y}"
    by (rule strcmp_bytes_neg_iff)
qed

theorem sl_compare_string_spec_witness:
  "sl_compare_string demo_heap NULL NULL = Inr 0 \<and>
   (\<exists>r. sl_compare_string demo_heap NULL 0x1000 = Inr r \<and> r \<noteq> 0) \<and>
   (\<exists>r. sl_compare_string demo_heap 0x1000 NULL = Inr r \<and> r \<noteq> 0) \<and>
   sl_compare_string demo_heap 0x1000 0x2000 = Inr (- 6) \<and>
   sl_compare_string demo_heap 0x2000 0x1000 = Inr 6 \<and>
   sl_compare_string demo_heap 0x1000 0x1000 = Inr 0"
  using sl_compare_string_spec [of demo_heap NULL "0x1000"]
    sl_compare_string_spec [of demo_heap "0x1000" NULL]
    sl_compare_string_spec [of demo_heap "0x1000" "0x2000" "[0x68, 0x69]" "[0x68, 0x6F]"]
    sl_compare_string_spec [of demo_heap "0x2000" "0x1000" "[0x68, 0x6F]" "[0x68, 0x69]"]
    sl_compare_string_spec [of demo_heap "0x1000" "0x1000" "[0x68, 0x69]" "[0x68, 0x69]"]
    demo_read_hi demo_read_ho
  by simp

text \<open>
  C9. When exactly one of the two arguments of \<open>compare\<close> is NULL the result is exactly 1,
  whichever side is NULL and whatever the other pointer holds: the other argument is not
  read.
\<close>

theorem sl_compare_string_one_null:
  "(str1 = NULL) \<noteq> (str2 = NULL) \<Longrightarrow> sl_compare_string h str1 str2 = Inr 1"
  by (auto simp: sl_compare_string_def)

theorem sl_compare_string_one_null_witness:
  "sl_compare_string demo_heap NULL 0x1000 = Inr 1 \<and>
   sl_compare_string demo_heap 0x1000 NULL = Inr 1 \<and>
   sl_compare_string demo_heap NULL 0x3000 = Inr 1"
  using sl_compare_string_one_null [of NULL "0x1000" demo_heap]
    sl_compare_string_one_null [of "0x1000" NULL demo_heap]
    sl_compare_string_one_null [of NULL "0x3000" demo_heap]
  by simp

subsection \<open>Release of NULL\<close>

text \<open>
  C5. \<open>release\<close> called with a NULL block pointer is a no-op and never faults, however
  many times it is called: every such call returns normally and leaves the memory,
  with its set of allocated blocks, exactly as it was. The tracked release of the debug
  build behaves the same way: no deallocation, no ledger update, no diagnostic line.
\<close>

theorem sl_free_null_noop:
  "sl_free NULL h = Inr h \<and> release_times n NULL h = Inr h \<and>
   sl_debug_free NULL file line s = Inr s"
proof (intro conjI)
  show first: "sl_free NULL h = Inr h"
    by (simp add: sl_free_def)
  show "release_times n NULL h = Inr h"
    by (induction n) (simp_all add: first)
  show "sl_debug_free NULL file line s = Inr s"
    by (simp add: sl_debug_free_def)
qed

theorem sl_free_null_noop_witness:
  "sl_free NULL demo_heap = Inr demo_heap \<and> release_times 1000 NULL demo_heap = Inr demo_heap \<and>
   sl_debug_free NULL ''main.c'' 7 (process_start demo_heap) = Inr (process_start demo_heap)"
  using sl_free_null_noop [of demo_heap 1000 "''main.c''" 7 "process_start demo_heap"]
  by simp

subsection \<open>Concatenation with one NULL operand\<close>

text \<open>
  C6. \<open>concat\<close> with one NULL operand is \<open>make_string\<close> of the other operand, on either
  side. For a non-NULL string \<open>s\<close> and a host allocator that returns NULL or a block
  disjoint from the live objects, the call returns an address different from \<open>s\<close>; when
  that address is not NULL it is a freshly allocated block whose string equals the
  string at \<open>s\<close>, and the block of \<open>s\<close> itself is untouched.
\<close>

theorem sl_concat_string_one_null:
  "sl_concat_string host s NULL h = sl_alloc_string host s h \<and>
   sl_concat_string host NULL s h = sl_alloc_string host s h \<and>
   (s \<noteq> NULL \<and> read_string h s = Inr cs \<and> host_fresh host h \<longrightarrow>
      (\<exists>r h'. sl_concat_string host s NULL h = Inr (r, h') \<and> r \<noteq> s \<and>
         (r \<noteq> NULL \<longrightarrow>
            blocks h r = None \<and> r \<in> allocated h' \<and>
            read_string h' r = Inr cs \<and> read_string h' s = Inr cs \<and>
            blocks h' s = blocks h s)))"
proof (intro conjI impI)
  show eq1: "sl_concat_string host s NULL h = sl_alloc_string host s h"
    by (simp add: sl_concat_string_def sl_alloc_string_def)
  show "sl_concat_string host NULL s h = sl_alloc_string host s h"
    by (simp add: sl_concat_string_def sl_alloc_string_def)
  assume pre: "s \<noteq> NULL \<and> read_string h s = Inr cs \<and> host_fresh host h"
  obtain r junk where host: "host = (r, junk)"
    by (cases host)
  show "\<exists>r h'. sl_concat_string host s NULL h = Inr (r, h') \<and> r \<noteq> s \<and>
         (r \<noteq> NULL \<longrightarrow>
            blocks h r = None \<and> r \<in> allocated h' \<and>
            read_string h' r = Inr cs \<and> read_string h' s = Inr cs \<and>
            blocks h' s = blocks h s)"
  proof (cases "r = NULL")
    case True
    then have "sl_concat_string host s NULL h = Inr (NULL, h)"
      using pre host eq1 sl_alloc_string_fail [of h s cs junk] by simp
    then show ?thesis
      using pre by auto
  next
    case False
    define h' where "h' = h\<lparr>blocks := (blocks h)(r \<mapsto> cs @ [0]),
      allocated := insert r (allocated h)\<rparr>"
    from False pre host have fresh: "blocks h r = None"
      by (simp add: host_fresh_def)
    then have res: "sl_concat_string host s NULL h = Inr (r, h')"
      using pre host eq1 False sl_alloc_string_copy [of h s cs r junk] by (simp add: h'_def)
    have ne: "r \<noteq> s"
      using pre fresh read_string_live [of h s cs] by auto
    then have same: "blocks h' s = blocks h s"
      by (simp add: h'_def)
    have "blocks h' r = Some (cs @ 0 # [])"
      by (simp add: h'_def)
    moreover have "0 \<notin> set cs"
      using pre read_string_no_zero by blast
    moreover have "length cs + length ([] :: byte list) + 1 < 2 ^ 64"
      using pre read_string_bound [of h s cs] by simp
    ultimately have "read_string h' r = Inr cs"
      by (rule read_string_terminated)
    moreover have "read_string h' s = Inr cs"
      using pre read_string_same_block [OF same] by simp
    moreover have "r \<in> allocated h'"
      by (simp add: h'_def)
    ultimately show ?thesis
      using res ne fresh same by blast
  qed
qed

theorem sl_concat_string_one_null_witness:
  "sl_concat_string (0x3000, demo_junk) 0x2000 NULL demo_heap =
     sl_alloc_string (0x3000, demo_junk) 0x2000 demo_heap \<and>
   sl_concat_string (0x3000, demo_junk) NULL 0x2000 demo_heap =
     sl_alloc_string (0x3000, demo_junk) 0x2000 demo_heap \<and>
   (\<exists>r h'. sl_concat_string (0x3000, demo_junk) 0x2000 NULL demo_heap = Inr (r, h') \<and>
      r \<noteq> 0x2000 \<and> r \<noteq> NULL \<and> blocks demo_heap r = None \<and> r \<in> allocated h' \<and>
      read_string h' r = Inr [0x68, 0x6F] \<and> read_string h' 0x2000 = Inr [0x68, 0x6F])"
proof -
  have fresh: "host_fresh (0x3000, demo_junk) demo_heap"
    by (simp add: host_fresh_def demo_fresh)
  have run: "sl_concat_string (0x3000, demo_junk) 0x2000 NULL demo_heap =
     Inr (0x3000, demo_heap\<lparr>blocks := (blocks demo_heap)(0x3000 \<mapsto> [0x68, 0x6F, 0]),
                            allocated := insert 0x3000 (allocated demo_heap)\<rparr>)"
    using sl_alloc_string_copy [OF demo_read_ho, of "0x3000" demo_junk] demo_fresh
    by (simp add: sl_concat_string_def)
  note inst = sl_concat_string_one_null [of "(0x3000, demo_junk)" "0x2000" demo_heap "[0x68, 0x6F]"]
  have nz: "(0x2000 :: addr) \<noteq> NULL"
    by simp
  from inst nz demo_read_ho fresh obtain r h' where
    res: "sl_concat_string (0x3000, demo_junk) 0x2000 NULL demo_heap = Inr (r, h')"
    and ne: "r \<noteq> 0x2000"
    and copy: "r \<noteq> NULL \<longrightarrow> blocks demo_heap r = None \<and> r \<in> allocated h' \<and>
      read_string h' r = Inr [0x68, 0x6F] \<and> read_string h' 0x2000 = Inr [0x68, 0x6F] \<and>
      blocks h' 0x2000 = blocks demo_heap 0x2000"
    by blast
  from res run have "r = 0x3000"
    by simp
  with res ne copy have "\<exists>r h'. sl_concat_string (0x3000, demo_junk) 0x2000 NULL demo_heap = Inr (r, h') \<and>
      r \<noteq> 0x2000 \<and> r \<noteq> NULL \<and> blocks demo_heap r = None \<and> r \<in> allocated h' \<and>
      read_string h' r = Inr [0x68, 0x6F] \<and> read_string h' 0x2000 = Inr [0x68, 0x6F]"
    by (intro exI [of _ r] exI [of _ h']) simp
  with inst show ?thesis
    by blast
qed

subsection \<open>The ledger after a run\<close>

lemma run_append:
  "run (cs1 @ cs2) s = (case run cs1 s of Inl e \<Rightarrow> Inl e | Inr s1 \<Rightarrow> run cs2 s1)"
  by (induction cs1 arbitrary: s) (auto split: sum.splits)

lemma sl_debug_malloc_ledger:
  "allocated_bytes (snd (sl_debug_malloc host sz file line s)) =
     allocated_bytes s + (if fst host \<noteq> NULL then sz else 0) \<and>
   allocation_count (snd (sl_debug_malloc host sz file line s)) =
     allocation_count s + (if fst host \<noteq> NULL then 1 else 0)"
  by (simp add: sl_debug_malloc_def malloc_def)

lemma sl_debug_free_ledger:
  "sl_debug_free ptr file line s = Inr s' \<Longrightarrow>
   allocated_bytes s' = allocated_bytes s \<and>
   allocation_count s' = allocation_count s - (if ptr \<noteq> NULL then 1 else 0)"
  by (auto simp: sl_debug_free_def split: if_splits sum.splits)

lemma sl_print_memory_stats_ledger:
  "allocated_bytes (sl_print_memory_stats s) = allocated_bytes s \<and>
   allocation_count (sl_print_memory_stats s) = allocation_count s"
  by (simp add: sl_print_memory_stats_def)

lemma step_bytes:
  "step c s = Inr s' \<Longrightarrow> allocated_bytes s' = allocated_bytes s + of_nat (granted c)"
  by (cases c) (auto simp: sl_debug_malloc_ledger sl_print_memory_stats_ledger
      dest: sl_debug_free_ledger)

lemma run_bytes:
  "run cs s = Inr s' \<Longrightarrow> allocated_bytes s' = allocated_bytes s + of_nat (granted_total cs)"
proof (induction cs arbitrary: s)
  case Nil
  then show ?case by (simp add: granted_total_def)
next
  case (Cons c cs)
  then obtain s1 where s1: "step c s = Inr s1" and rest: "run cs s1 = Inr s'"
    by (auto split: sum.splits)
  from Cons.IH [OF rest] step_bytes [OF s1] show ?case
    by (simp add: granted_total_def)
qed

lemma step_count:
  "step c s = Inr s' \<Longrightarrow> succeeds c \<Longrightarrow>
   allocation_count s' =
     allocation_count s + (if is_malloc c then 1 else 0) - (if is_free c then 1 else 0)"
  by (cases c) (auto simp: sl_debug_malloc_ledger sl_print_memory_stats_ledger
      dest: sl_debug_free_ledger)

lemma run_count:
  "run cs s = Inr s' \<Longrightarrow> list_all succeeds cs \<Longrightarrow>
   allocation_count s' = allocation_count s + of_nat (allocations cs) - of_nat (releases cs)"
proof (induction cs arbitrary: s)
  case Nil
  then show ?case by (simp add: allocations_def releases_def)
next
  case (Cons c cs)
  then obtain s1 where s1: "step c s = Inr s1" and rest: "run cs s1 = Inr s'"
    by (auto split: sum.splits)
  from Cons.prems have ok: "succeeds c" "list_all succeeds cs"
    by simp_all
  from Cons.IH [OF rest ok(2)] step_count [OF s1 ok(1)] show ?case
    by (simp add: allocations_def releases_def)
qed

lemma granted_requested:
  "list_all succeeds cs \<Longrightarrow> granted_total cs = requested_total cs"
proof (induction cs)
  case Nil
  then show ?case by (simp add: granted_total_def requested_total_def)
next
  case (Cons c cs)
  then show ?case by (cases c) (simp_all add: granted_total_def requested_total_def)
qed

lemma demo_run_result:
  "run demo_run (process_start demo_heap) =
     Inr \<lparr>mem = \<lparr>blocks = [0x1000 \<mapsto> [0x68, 0x69, 0], 0x2000 \<mapsto> [0x68, 0x6F, 0, 0x21],
                              0x4000 \<mapsto> [0xAA, 0xAA, 0xAA, 0xAA, 0xAA, 0xAA, 0xAA, 0xAA]],
                    allocated = {0x2000, 0x4000}\<rparr>,
          allocated_bytes = 24, allocation_count = 1,
          err_stream = [ALLOC 16 0x3000 ''main.c'' 3, ALLOC 8 0x4000 ''main.c'' 4,
                        FREE 0x3000 ''main.c'' 9, STATS 24 1]\<rparr>"
  by (simp add: demo_run_def process_start_def demo_heap_def sl_debug_malloc_def malloc_def
      sl_debug_free_def free_def sl_print_memory_stats_def demo_junk_def fun_eq_iff
      insert_commute insert_Diff_if upt_conv_Cons)

lemma churn_Suc:
  "churn (Suc n) =
     DebugMalloc (0x3000, demo_junk) (2 ^ 32) ''main.c'' 3 # DebugFree 0x3000 ''main.c'' 4 # churn n"
  by (simp add: churn_def)

lemma churn_round:
  assumes "blocks (mem s) 0x3000 = None" and "0x3000 \<notin> allocated (mem s)"
  shows "run [DebugMalloc (0x3000, demo_junk) (2 ^ 32) ''main.c'' 3, DebugFree 0x3000 ''main.c'' 4] s =
     Inr (s\<lparr>allocated_bytes := allocated_bytes s + 2 ^ 32,
            err_stream := err_stream s @
              [ALLOC (2 ^ 32) 0x3000 ''main.c'' 3, FREE 0x3000 ''main.c'' 4]\<rparr>)"
proof -
  have "(blocks (mem s))(0x3000 := None) = blocks (mem s)"
    using assms(1) by (rule fun_upd_idem)
  moreover have "allocated (mem s) - {0x3000} = allocated (mem s)"
    using assms(2) by simp
  ultimately show ?thesis
    by (simp add: sl_debug_malloc_def malloc_def sl_debug_free_def free_def)
qed

lemma run_churn:
  "blocks (mem s) 0x3000 = None \<Longrightarrow> 0x3000 \<notin> allocated (mem s) \<Longrightarrow>
   run (churn n) s =
     Inr (s\<lparr>allocated_bytes := allocated_bytes s + of_nat n * 2 ^ 32,
            err_stream := err_stream s @ churn_log n\<rparr>)"
proof (induction n arbitrary: s)
  case 0
  then show ?case by (simp add: churn_def churn_log_def)
next
  case (Suc n)
  define s1 where "s1 = s\<lparr>allocated_bytes := allocated_bytes s + 2 ^ 32,
    err_stream := err_stream s @ [ALLOC (2 ^ 32) 0x3000 ''main.c'' 3, FREE 0x3000 ''main.c'' 4]\<rparr>"
  have round: "run [DebugMalloc (0x3000, demo_junk) (2 ^ 32) ''main.c'' 3,
      DebugFree 0x3000 ''main.c'' 4] s = Inr s1"
    unfolding s1_def using Suc.prems by (rule churn_round)
  have "blocks (mem s1) 0x3000 = None" "0x3000 \<notin> allocated (mem s1)"
    using Suc.prems by (simp_all add: s1_def)
  then have rest: "run (churn n) s1 =
      Inr (s1\<lparr>allocated_bytes := allocated_bytes s1 + of_nat n * 2 ^ 32,
             err_stream := err_stream s1 @ churn_log n\<rparr>)"
    by (rule Suc.IH)
  have "churn (Suc n) = [DebugMalloc (0x3000, demo_junk) (2 ^ 32) ''main.c'' 3,
      DebugFree 0x3000 ''main.c'' 4] @ churn n"
    by (simp add: churn_Suc)
  then have "run (churn (Suc n)) s = run (churn n) s1"
    using round by (simp only: run_append sum.case)
  with rest show ?case
    by (simp add: s1_def churn_log_def algebra_simps)
qed

lemma churn_counts:
  "list_all succeeds (churn n) \<and> allocations (churn n) = n \<and> releases (churn n) = n \<and>
   requested_total (churn n) = n * 2 ^ 32 \<and> granted_total (churn n) = n * 2 ^ 32"
  by (induction n)
    (simp_all add: churn_def allocations_def releases_def requested_total_def granted_total_def)

lemma demo_heap_3000:
  "blocks (mem (process_start demo_heap)) 0x3000 = None"
  "0x3000 \<notin> allocated (mem (process_start demo_heap))"
  by (simp_all add: process_start_def demo_heap_def)

text \<open>
  C4 (as amended). In the debug build, starting from the zero ledger, after a run of \<open>N\<close>
  tracked allocations that all succeed and \<open>M \<le> N\<close> tracked releases of allocated
  non-NULL blocks (and any number of reports), the live-allocation count is \<open>N - M\<close>
  modulo \<open>2 ^ 64\<close> and cumulative-bytes is the sum of the requested sizes modulo
  \<open>2 ^ 64\<close>: both are \<open>size_t\<close> counters. They are the exact values whenever these stay
  below \<open>2 ^ 64\<close>.
\<close>

theorem ledger_after_run:
  assumes "run cs (process_start h) = Inr s"
    and "list_all succeeds cs"
    and "releases cs \<le> allocations cs"
  shows "unat (allocation_count s) = (allocations cs - releases cs) mod 2 ^ 64 \<and>
         unat (allocated_bytes s) = requested_total cs mod 2 ^ 64 \<and>
         (allocations cs - releases cs < 2 ^ 64 \<longrightarrow>
            unat (allocation_count s) = allocations cs - releases cs) \<and>
         (requested_total cs < 2 ^ 64 \<longrightarrow>
            unat (allocated_bytes s) = requested_total cs)"
proof -
  have "allocation_count s = of_nat (allocations cs) - of_nat (releases cs)"
    using run_count [OF assms(1,2)] by (simp add: process_start_def)
  also have "\<dots> = of_nat (allocations cs - releases cs)"
    using assms(3) by simp
  finally have count: "unat (allocation_count s) = (allocations cs - releases cs) mod 2 ^ 64"
    by (simp add: unat_of_nat)
  have "allocated_bytes s = of_nat (requested_total cs)"
    using run_bytes [OF assms(1)] granted_requested [OF assms(2)]
    by (simp add: process_start_def)
  then have bytes: "unat (allocated_bytes s) = requested_total cs mod 2 ^ 64"
    by (simp add: unat_of_nat)
  from count bytes show ?thesis
    by simp
qed

theorem ledger_after_run_witness:
  "(\<exists>s. run demo_run (process_start demo_heap) = Inr s \<and>
        unat (allocation_count s) = 1 \<and> unat (allocated_bytes s) = 24) \<and>
   list_all succeeds demo_run \<and> allocations demo_run = 2 \<and> releases demo_run = 1 \<and>
   requested_total demo_run = 24"
proof -
  have ok: "list_all succeeds demo_run"
    by (simp add: demo_run_def)
  have counts: "allocations demo_run = 2" "releases demo_run = 1" "requested_total demo_run = 24"
    by (simp_all add: demo_run_def allocations_def releases_def requested_total_def)
  from counts have le: "releases demo_run \<le> allocations demo_run"
    by simp
  from ledger_after_run [OF demo_run_result ok le] counts ok demo_run_result show ?thesis
    by simp
qed

text \<open>
  The exact sum is lost once it reaches \<open>2 ^ 64\<close>: after \<open>2 ^ 32\<close> rounds of allocating
  4 GiB and releasing it, all successful, the requested sizes add up to \<open>2 ^ 64\<close> and
  cumulative-bytes reads 0.
\<close>

theorem ledger_bytes_wrap:
  "run (churn (2 ^ 32)) (process_start demo_heap) =
     Inr ((process_start demo_heap)\<lparr>err_stream := churn_log (2 ^ 32)\<rparr>) \<and>
   list_all succeeds (churn (2 ^ 32)) \<and>
   allocations (churn (2 ^ 32)) = 2 ^ 32 \<and> releases (churn (2 ^ 32)) = 2 ^ 32 \<and>
   requested_total (churn (2 ^ 32)) = 2 ^ 64 \<and>
   unat (allocated_bytes ((process_start demo_heap)\<lparr>err_stream := churn_log (2 ^ 32)\<rparr>)) = 0"
proof -
  have z: "(of_nat (2 ^ 32) * 2 ^ 32 :: size_t) = 0"
    by simp
  have "run (churn (2 ^ 32)) (process_start demo_heap) =
     Inr ((process_start demo_heap)\<lparr>allocated_bytes := allocated_bytes (process_start demo_heap) + 0,
            err_stream := err_stream (process_start demo_heap) @ churn_log (2 ^ 32)\<rparr>)"
    using run_churn [OF demo_heap_3000, of "2 ^ 32"]
    unfolding z .
  then have "run (churn (2 ^ 32)) (process_start demo_heap) =
     Inr ((process_start demo_heap)\<lparr>err_stream := churn_log (2 ^ 32)\<rparr>)"
    by (simp add: process_start_def)
  moreover have "unat (allocated_bytes ((process_start demo_heap)\<lparr>err_stream := churn_log (2 ^ 32)\<rparr>)) = 0"
    by (simp add: process_start_def)
  moreover have "requested_total (churn (2 ^ 32)) = 2 ^ 64"
    using churn_counts [of "2 ^ 32"] by simp
  ultimately show ?thesis
    using churn_counts [of "2 ^ 32"] by blast
qed

subsection \<open>Array allocation\<close>

text \<open>
  C7. For every element size and count, \<open>allocate_array\<close> returns either NULL, with the
  memory unchanged, or a block of \<open>element_size * count\<close> bytes that are all zero; it
  returns NULL when the multiplication overflows \<open>size_t\<close> and when the host allocator
  fails. The overflow check and the zero fill are the host's \<open>calloc\<close>, to which
  the function forwards its arguments (count first).
\<close>

theorem sl_alloc_array_spec:
  "(\<exists>r h'. sl_alloc_array host element_size count h = (r, h') \<and>
      (r = NULL \<and> h' = h \<or>
       r \<noteq> NULL \<and> unat element_size * unat count < 2 ^ 64 \<and>
       blocks h' r = Some (replicate (unat element_size * unat count) 0) \<and>
       r \<in> allocated h')) \<and>
   (2 ^ 64 \<le> unat element_size * unat count \<longrightarrow>
      sl_alloc_array host element_size count h = (NULL, h)) \<and>
   (fst host = NULL \<longrightarrow> sl_alloc_array host element_size count h = (NULL, h))"
  by (auto simp: sl_alloc_array_def calloc_def mult.commute)

theorem sl_alloc_array_spec_witness:
  "sl_alloc_array (0x3000, demo_junk) 4 3 demo_heap =
     (0x3000, demo_heap\<lparr>blocks := (blocks demo_heap)(0x3000 \<mapsto> replicate 12 0),
                        allocated := insert 0x3000 (allocated demo_heap)\<rparr>) \<and>
   sl_alloc_array (0x3000, demo_junk) (2 ^ 33) (2 ^ 31) demo_heap = (NULL, demo_heap) \<and>
   sl_alloc_array (NULL, demo_junk) 4 3 demo_heap = (NULL, demo_heap)"
proof -
  have big: "(2 :: nat) ^ 64 \<le> unat (2 ^ 33 :: size_t) * unat (2 ^ 31 :: size_t)"
    by simp
  have none: "fst (NULL, demo_junk) = NULL"
    by simp
  have "sl_alloc_array (0x3000, demo_junk) 4 3 demo_heap =
     (0x3000, demo_heap\<lparr>blocks := (blocks demo_heap)(0x3000 \<mapsto> replicate 12 0),
                        allocated := insert 0x3000 (allocated demo_heap)\<rparr>)"
    by (simp add: sl_alloc_array_def calloc_def)
  moreover have "sl_alloc_array (0x3000, demo_junk) (2 ^ 33) (2 ^ 31) demo_heap = (NULL, demo_heap)"
    using sl_alloc_array_spec [of "(0x3000, demo_junk)" "2 ^ 33" "2 ^ 31" demo_heap] big
    by blast
  moreover have "sl_alloc_array (NULL, demo_junk) 4 3 demo_heap = (NULL, demo_heap)"
    using sl_alloc_array_spec [of "(NULL, demo_junk)" 4 3 demo_heap] none
    by blast
  ultimately show ?thesis
    by blast
qed

subsection \<open>Lifecycle of the ledger\<close>

text \<open>
  C8 (as amended). The ledger is \<open>(0, 0)\<close> at process start. A tracked allocation that
  succeeds adds the size to cumulative-bytes and 1 to the live count, and a tracked
  release of a non-NULL block subtracts 1 from the live count: both change the ledger.
  A tracked allocation that fails and a tracked release of NULL leave the whole state
  as it was. No call does anything else to the ledger (there is no reset), and the report
  leaves ledger and memory alone and only appends its line to the error stream.
\<close>

theorem ledger_lifecycle:
  "ledger (process_start h) = (0, 0) \<and>
   (fst host \<noteq> NULL \<longrightarrow>
      ledger (snd (sl_debug_malloc host sz file line s)) =
        (allocated_bytes s + sz, allocation_count s + 1) \<and>
      ledger (snd (sl_debug_malloc host sz file line s)) \<noteq> ledger s) \<and>
   (fst host = NULL \<longrightarrow> sl_debug_malloc host sz file line s = (NULL, s)) \<and>
   (ptr \<noteq> NULL \<and> sl_debug_free ptr file line s = Inr s' \<longrightarrow>
      ledger s' = (allocated_bytes s, allocation_count s - 1) \<and> ledger s' \<noteq> ledger s) \<and>
   sl_debug_free NULL file line s = Inr s \<and>
   (step c s = Inr s'' \<longrightarrow>
      ledger s'' = ledger s \<or>
      ledger s'' = (allocated_bytes s + of_nat (requested c), allocation_count s + 1) \<or>
      ledger s'' = (allocated_bytes s, allocation_count s - 1)) \<and>
   ledger (sl_print_memory_stats s) = ledger s \<and>
   mem (sl_print_memory_stats s) = mem s \<and>
   err_stream (sl_print_memory_stats s) =
     err_stream s @ [STATS (allocated_bytes s) (allocation_count s)]"
proof (intro conjI impI)
  show "ledger (process_start h) = (0, 0)"
    by (simp add: ledger_def process_start_def)
  show "sl_debug_free NULL file line s = Inr s"
    by (simp add: sl_debug_free_def)
  show "ledger (sl_print_memory_stats s) = ledger s"
    "mem (sl_print_memory_stats s) = mem s"
    "err_stream (sl_print_memory_stats s) =
       err_stream s @ [STATS (allocated_bytes s) (allocation_count s)]"
    by (simp_all add: ledger_def sl_print_memory_stats_def)
next
  assume "fst host \<noteq> NULL"
  then show "ledger (snd (sl_debug_malloc host sz file line s)) =
      (allocated_bytes s + sz, allocation_count s + 1)"
    by (simp add: ledger_def sl_debug_malloc_ledger)
  then show "ledger (snd (sl_debug_malloc host sz file line s)) \<noteq> ledger s"
    by (simp add: ledger_def)
next
  assume "fst host = NULL"
  then show "sl_debug_malloc host sz file line s = (NULL, s)"
    by (simp add: sl_debug_malloc_def malloc_def)
next
  assume "ptr \<noteq> NULL \<and> sl_debug_free ptr file line s = Inr s'"
  then show "ledger s' = (allocated_bytes s, allocation_count s - 1)"
    by (auto simp: ledger_def dest: sl_debug_free_ledger)
  then show "ledger s' \<noteq> ledger s"
    by (simp add: ledger_def)
next
  assume st: "step c s = Inr s''"
  show "ledger s'' = ledger s \<or>
      ledger s'' = (allocated_bytes s + of_nat (requested c), allocation_count s + 1) \<or>
      ledger s'' = (allocated_bytes s, allocation_count s - 1)"
  proof (cases c)
    case (DebugMalloc host' sz' file' line')
    with st have "s'' = snd (sl_debug_malloc host' sz' file' line' s)"
      by simp
    with DebugMalloc show ?thesis
      by (cases "fst host' = NULL") (simp_all add: ledger_def sl_debug_malloc_ledger)
  next
    case (DebugFree p f l)
    with st have "sl_debug_free p f l s = Inr s''"
      by simp
    from sl_debug_free_ledger [OF this] show ?thesis
      by (cases "p = NULL") (simp_all add: ledger_def)
  next
    case PrintStats
    with st show ?thesis
      by (auto simp: ledger_def sl_print_memory_stats_ledger)
  qed
qed

theorem ledger_lifecycle_witness:
  "ledger (process_start demo_heap) = (0, 0) \<and>
   ledger (snd (sl_debug_malloc (0x3000, demo_junk) 16 ''main.c'' 3 (process_start demo_heap))) =
     (16, 1) \<and>
   (\<exists>s1 s2. run (take 2 demo_run) (process_start demo_heap) = Inr s1 \<and>
      sl_debug_free 0x3000 ''main.c'' 9 s1 = Inr s2 \<and> ledger s1 = (24, 2) \<and> ledger s2 = (24, 1) \<and>
      ledger (sl_print_memory_stats s2) = (24, 1))"
proof -
  define s0 where "s0 = process_start demo_heap"
  define s1 where "s1 = snd (sl_debug_malloc (0x4000, demo_junk) 8 ''main.c'' 4
    (snd (sl_debug_malloc (0x3000, demo_junk) 16 ''main.c'' 3 s0)))"
  have r1: "run (take 2 demo_run) s0 = Inr s1"
    by (simp add: demo_run_def s1_def)
  have l0: "ledger s0 = (0, 0)"
    using ledger_lifecycle [of demo_heap] by (simp add: s0_def)
  have l1: "ledger (snd (sl_debug_malloc (0x3000, demo_junk) 16 ''main.c'' 3 s0)) = (16, 1)"
    using ledger_lifecycle [of demo_heap "(0x3000, demo_junk)" 16 "''main.c''" 3 s0] l0
    by (simp add: ledger_def)
  have l2: "ledger s1 = (24, 2)"
    unfolding s1_def
    using ledger_lifecycle [of demo_heap "(0x4000, demo_junk)" 8 "''main.c''" 4
        "snd (sl_debug_malloc (0x3000, demo_junk) 16 ''main.c'' 3 s0)"] l1
    by (simp add: ledger_def)
  obtain s2 where f: "sl_debug_free 0x3000 ''main.c'' 9 s1 = Inr s2"
    by (simp add: s1_def s0_def sl_debug_free_def free_def sl_debug_malloc_def malloc_def
        process_start_def demo_heap_def)
  have nz: "(0x3000 :: addr) \<noteq> NULL"
    by simp
  have l3: "ledger s2 = (24, 1)"
    using ledger_lifecycle [of demo_heap "(0x3000, demo_junk)" 16 "''main.c''" 9 s1 "0x3000" s2]
      f l2 nz
    by (simp add: ledger_def)
  have l4: "ledger (sl_print_memory_stats s2) = (24, 1)"
    using ledger_lifecycle [of demo_heap "(0x3000, demo_junk)" 16 "''main.c''" 9 s2] l3
    by simp
  from r1 f l0 l1 l2 l3 l4 show ?thesis
    unfolding s0_def by blast
qed

text \<open>
  The guards \<open>if (ptr)\<close> of both debug functions skip the bookkeeping: a tracked
  allocation for which the host returns NULL, and a tracked release of NULL, do not touch
  the ledger.
\<close>

theorem ledger_untouched_on_failure:
  "sl_debug_malloc (NULL, demo_junk) 16 ''main.c'' 3 (process_start demo_heap) =
     (NULL, process_start demo_heap) \<and>
   sl_debug_free NULL ''main.c'' 4 (process_start demo_heap) = Inr (process_start demo_heap)"
  by (simp add: sl_debug_malloc_def malloc_def sl_debug_free_def)

subsection \<open>Growth of cumulative-bytes\<close>

lemma run_split:
  "run (cs1 @ cs2) s = Inr s' \<Longrightarrow> \<exists>s1. run cs1 s = Inr s1 \<and> run cs2 s1 = Inr s'"
  by (auto simp: run_append split: sum.splits)

lemma granted_total_append: "granted_total (cs1 @ cs2) = granted_total cs1 + granted_total cs2"
  by (simp add: granted_total_def)

lemma bytes_grow:
  assumes "run cs s = Inr s'" and "unat (allocated_bytes s) + granted_total cs < 2 ^ 64"
  shows "unat (allocated_bytes s') = unat (allocated_bytes s) + granted_total cs"
proof -
  have "allocated_bytes s + of_nat (granted_total cs) =
      (of_nat (unat (allocated_bytes s) + granted_total cs) :: size_t)"
    by simp
  then show ?thesis
    unfolding run_bytes [OF assms(1)] using assms(2) unat_size_t by metis
qed

text \<open>
  C10 (as amended). A tracked release and the report leave cumulative-bytes unchanged,
  and a tracked allocation adds the requested size when it succeeds and nothing when it
  fails, in \<open>size_t\<close> arithmetic. So along any run during which the granted sizes, added
  to the starting value, stay below \<open>2 ^ 64\<close>, cumulative-bytes never decreases: it does
  not decrease from the start to any point of the run, nor from there to the end.
\<close>

theorem allocated_bytes_monotone:
  "(sl_debug_free ptr file line s = Inr s1 \<longrightarrow> allocated_bytes s1 = allocated_bytes s) \<and>
   allocated_bytes (sl_print_memory_stats s) = allocated_bytes s \<and>
   allocated_bytes (snd (sl_debug_malloc host sz file line s)) =
     allocated_bytes s + (if fst host \<noteq> NULL then sz else 0) \<and>
   (run (cs1 @ cs2) s = Inr s' \<and>
    unat (allocated_bytes s) + granted_total (cs1 @ cs2) < 2 ^ 64 \<longrightarrow>
      (\<exists>s2. run cs1 s = Inr s2 \<and> run cs2 s2 = Inr s' \<and>
         allocated_bytes s \<le> allocated_bytes s2 \<and> allocated_bytes s2 \<le> allocated_bytes s'))"
proof (intro conjI impI)
  show "allocated_bytes (sl_print_memory_stats s) = allocated_bytes s"
    by (simp add: sl_print_memory_stats_ledger)
  show "allocated_bytes (snd (sl_debug_malloc host sz file line s)) =
     allocated_bytes s + (if fst host \<noteq> NULL then sz else 0)"
    by (simp add: sl_debug_malloc_ledger)
next
  assume "sl_debug_free ptr file line s = Inr s1"
  then show "allocated_bytes s1 = allocated_bytes s"
    by (simp add: sl_debug_free_ledger)
next
  assume pre: "run (cs1 @ cs2) s = Inr s' \<and>
    unat (allocated_bytes s) + granted_total (cs1 @ cs2) < 2 ^ 64"
  then obtain s2 where r1: "run cs1 s = Inr s2" and r2: "run cs2 s2 = Inr s'"
    using run_split by blast
  from pre have b1: "unat (allocated_bytes s) + granted_total cs1 < 2 ^ 64"
    by (simp add: granted_total_append)
  have u1: "unat (allocated_bytes s2) = unat (allocated_bytes s) + granted_total cs1"
    using r1 b1 by (rule bytes_grow)
  from pre u1 have b2: "unat (allocated_bytes s2) + granted_total cs2 < 2 ^ 64"
    by (simp add: granted_total_append)
  have u2: "unat (allocated_bytes s') = unat (allocated_bytes s2) + granted_total cs2"
    using r2 b2 by (rule bytes_grow)
  from u1 u2 have "allocated_bytes s \<le> allocated_bytes s2" "allocated_bytes s2 \<le> allocated_bytes s'"
    by (simp_all add: word_le_nat_alt)
  with r1 r2 show "\<exists>s2. run cs1 s = Inr s2 \<and> run cs2 s2 = Inr s' \<and>
      allocated_bytes s \<le> allocated_bytes s2 \<and> allocated_bytes s2 \<le> allocated_bytes s'"
    by blast
qed

theorem allocated_bytes_monotone_witness:
  "\<exists>s2 s3. run (take 2 demo_run) (process_start demo_heap) = Inr s2 \<and>
      run (drop 2 demo_run) s2 = Inr s3 \<and>
      allocated_bytes (process_start demo_heap) \<le> allocated_bytes s2 \<and>
      allocated_bytes s2 \<le> allocated_bytes s3 \<and>
      allocated_bytes (process_start demo_heap) = 0 \<and> allocated_bytes s3 = 24"
proof -
  obtain s3 where whole: "run (take 2 demo_run @ drop 2 demo_run) (process_start demo_heap) = Inr s3"
    and last: "allocated_bytes s3 = 24"
    using demo_run_result by simp
  have "granted_total (take 2 demo_run @ drop 2 demo_run) = 24"
    by (simp add: demo_run_def granted_total_def)
  then have fits: "unat (allocated_bytes (process_start demo_heap)) +
      granted_total (take 2 demo_run @ drop 2 demo_run) < 2 ^ 64"
    by (simp add: process_start_def)
  have first: "allocated_bytes (process_start demo_heap) = 0"
    by (simp add: process_start_def)
  from allocated_bytes_monotone [of _ _ _ "process_start demo_heap" _ _ _
      "take 2 demo_run" "drop 2 demo_run" s3] whole fits
  obtain s2 where "run (take 2 demo_run) (process_start demo_heap) = Inr s2"
    "run (drop 2 demo_run) s2 = Inr s3"
    "allocated_bytes (process_start demo_heap) \<le> allocated_bytes s2"
    "allocated_bytes s2 \<le> allocated_bytes s3"
    by blast
  with first last show ?thesis
    by blast
qed

text \<open>
  Once the total reaches \<open>2 ^ 64\<close> the counter wraps: after \<open>2 ^ 32 - 1\<close> rounds of
  allocating 4 GiB and releasing it, cumulative-bytes is \<open>2 ^ 64 - 2 ^ 32\<close>, and one more
  successful allocation of 4 GiB takes it down to 0.
\<close>

theorem allocated_bytes_wraps_down:
  "run (churn 4294967295) (process_start demo_heap) =
     Inr ((process_start demo_heap)\<lparr>allocated_bytes := 0xFFFFFFFF00000000,
                                      err_stream := churn_log 4294967295\<rparr>) \<and>
   sl_debug_malloc (0x3000, demo_junk) 0x100000000 ''main.c'' 3
       ((process_start demo_heap)\<lparr>allocated_bytes := 0xFFFFFFFF00000000,
                                   err_stream := churn_log 4294967295\<rparr>) =
     (0x3000,
      \<lparr>mem = demo_heap\<lparr>blocks := (blocks demo_heap)(0x3000 \<mapsto> map demo_junk [0..<4294967296]),
                          allocated := insert 0x3000 (allocated demo_heap)\<rparr>,
       allocated_bytes = 0, allocation_count = 1,
       err_stream = churn_log 4294967295 @ [ALLOC 0x100000000 0x3000 ''main.c'' 3]\<rparr>) \<and>
   (0 :: size_t) < 0xFFFFFFFF00000000"
proof -
  have v: "(of_nat 4294967295 * 2 ^ 32 :: size_t) = 0xFFFFFFFF00000000"
    by simp
  have "run (churn 4294967295) (process_start demo_heap) =
     Inr ((process_start demo_heap)\<lparr>allocated_bytes :=
              allocated_bytes (process_start demo_heap) + 0xFFFFFFFF00000000,
            err_stream := err_stream (process_start demo_heap) @ churn_log 4294967295\<rparr>)"
    using run_churn [OF demo_heap_3000, of 4294967295]
    unfolding v .
  then have "run (churn 4294967295) (process_start demo_heap) =
     Inr ((process_start demo_heap)\<lparr>allocated_bytes := 0xFFFFFFFF00000000,
                                      err_stream := churn_log 4294967295\<rparr>)"
    by (simp add: process_start_def)
  moreover have "sl_debug_malloc (0x3000, demo_junk) 0x100000000 ''main.c'' 3
       ((process_start demo_heap)\<lparr>allocated_bytes := 0xFFFFFFFF00000000,
                                   err_stream := churn_log 4294967295\<rparr>) =
     (0x3000,
      \<lparr>mem = demo_heap\<lparr>blocks := (blocks demo_heap)(0x3000 \<mapsto> map demo_junk [0..<4294967296]),
                          allocated := insert 0x3000 (allocated demo_heap)\<rparr>,
       allocated_bytes = 0, allocation_count = 1,
       err_stream = churn_log 4294967295 @ [ALLOC 0x100000000 0x3000 ''main.c'' 3]\<rparr>)"
    by (simp add: sl_debug_malloc_def malloc_def process_start_def del: upt_rec_numeral)
  moreover have "(0 :: size_t) < 0xFFFFFFFF00000000"
    by simp
  ultimately show ?thesis
    by blast
qed

end
